theory Spec2Isabelle
  imports Complex_Main "HOL-Library.Word" "HOL-Library.Signed_Division"
begin

section \<open>C arithmetic\<close>

text \<open>
  The C type \<open>int\<close> is 32 bits wide on the platforms the programs target. A value of
  that type is an \<open>int\<close> between \<open>INT_MIN\<close> and \<open>INT_MAX\<close>; the result of an
  addition, subtraction or multiplication is wrapped back into that range (two's
  complement; the C standard leaves a signed overflow undefined). The remainder \<open>%\<close>
  of C takes the sign of the dividend (\<open>smod\<close>), and the quotient \<open>/\<close> truncates
  towards zero (\<open>sdiv\<close>).
\<close>

definition INT_MAX :: int where
  "INT_MAX = 2147483647"

definition INT_MIN :: int where
  "INT_MIN = - 2147483648"

definition wrap32 :: "int \<Rightarrow> int" where
  "wrap32 x = (x + 2147483648) mod 4294967296 - 2147483648"

definition c_add :: "int \<Rightarrow> int \<Rightarrow> int" where
  "c_add a b = wrap32 (a + b)"

definition c_sub :: "int \<Rightarrow> int \<Rightarrow> int" where
  "c_sub a b = wrap32 (a - b)"

definition c_mul :: "int \<Rightarrow> int \<Rightarrow> int" where
  "c_mul a b = wrap32 (a * b)"

definition c_rem :: "int \<Rightarrow> int \<Rightarrow> int" where
  "c_rem a b = a smod b"

section \<open>Single-precision arithmetic\<close>

text \<open>
  The C type \<open>float\<close> is the binary32 format of IEEE 754: 24 significant bits, the
  exponents -126 to 127, subnormal numbers below, and every operation rounded to the
  nearest float, ties to the even significand (the operations are evaluated in the range
  and precision of \<open>float\<close>). A float is a finite real, an infinity or NaN. The two
  zeros are the one real 0: they compare equal, and the programs never divide by a float
  that is zero.

  \<open>rne\<close> is the nearest integer, ties to even. \<open>fexp\<close> is the exponent of the binade of
  \<open>x\<close>, at least that of the subnormal numbers. \<open>round32\<close> is the nearest float with
  the exponent unbounded above, and \<open>fround\<close> turns what lies beyond \<open>FLT_MAX\<close> into
  an infinity, as the standard has it.
\<close>

datatype float32 = Finite real | PlusInf | MinusInf | NaN

definition rne :: "real \<Rightarrow> int" where
  "rne q =
     (let f = \<lfloor>q\<rfloor>; d = q - real_of_int f
      in if d < 1 / 2 then f else if 1 / 2 < d then f + 1 else if even f then f else f + 1)"

definition fexp :: "real \<Rightarrow> int" where
  "fexp x = max \<lfloor>log 2 \<bar>x\<bar>\<rfloor> (- 126)"

definition round32 :: "real \<Rightarrow> real" where
  "round32 x =
     (if x = 0 then 0
      else real_of_int (rne (x / 2 powi (fexp x - 23))) * 2 powi (fexp x - 23))"

definition FLT_MAX :: real where
  "FLT_MAX = (2 ^ 24 - 1) * 2 ^ 104"

definition fround :: "real \<Rightarrow> float32" where
  "fround x =
     (let r = round32 x
      in if FLT_MAX < r then PlusInf else if r < - FLT_MAX then MinusInf else Finite r)"

text \<open>The sum of two floats.\<close>

fun fadd :: "float32 \<Rightarrow> float32 \<Rightarrow> float32" where
  "fadd (Finite a) (Finite b) = fround (a + b)"
| "fadd (Finite a) PlusInf = PlusInf"
| "fadd (Finite a) MinusInf = MinusInf"
| "fadd PlusInf (Finite b) = PlusInf"
| "fadd PlusInf PlusInf = PlusInf"
| "fadd PlusInf MinusInf = NaN"
| "fadd MinusInf (Finite b) = MinusInf"
| "fadd MinusInf MinusInf = MinusInf"
| "fadd MinusInf PlusInf = NaN"
| "fadd NaN y = NaN"
| "fadd x NaN = NaN"

text \<open>
  A float divided by a positive integer below \<open>2 ^ 24\<close> (a count, a length or the
  literal 2), which the conversion to \<open>float\<close> leaves as it is.
\<close>

fun fdiv_int :: "float32 \<Rightarrow> nat \<Rightarrow> float32" where
  "fdiv_int (Finite a) n = fround (a / real n)"
| "fdiv_int PlusInf n = PlusInf"
| "fdiv_int MinusInf n = MinusInf"
| "fdiv_int NaN n = NaN"

text \<open>The comparison \<open><\<close> of two floats; it is false when one of them is NaN.\<close>

fun flt :: "float32 \<Rightarrow> float32 \<Rightarrow> bool" where
  "flt (Finite a) (Finite b) = (a < b)"
| "flt (Finite a) PlusInf = True"
| "flt MinusInf (Finite b) = True"
| "flt MinusInf PlusInf = True"
| "flt x y = False"

text \<open>The literal \<open>0.1f\<close>: the float nearest to one tenth.\<close>

definition FLT_TENTH :: float32 where
  "FLT_TENTH = fround (1 / 10)"


section \<open>Tomographic index (both engine files)\<close>

text \<open>
  \<open>struct TomographicIndex { int i, j, k; int permutations[6][3]; }\<close>. The 6 by 3
  array is the list of its rows.
\<close>

record TomographicIndex =
  ti_i :: int
  ti_j :: int
  ti_k :: int
  permutations :: "(int \<times> int \<times> int) list"

definition init_tomographic_index :: "TomographicIndex \<Rightarrow> int \<Rightarrow> int \<Rightarrow> int \<Rightarrow> TomographicIndex" where
  "init_tomographic_index idx i j k =
     idx\<lparr>ti_i := i, ti_j := j, ti_k := k,
         permutations := [(i, j, k), (j, i, k), (i, k, j), (j, k, i), (k, i, j), (k, j, i)]\<rparr>"

section \<open>Event handling, nsigii\_minimal.c\<close>

datatype TridentEvent =
  EVENT_UP | EVENT_DOWN | EVENT_LEFT | EVENT_RIGHT | EVENT_BACK | EVENT_START | EVENT_ENTER | EVENT_STOP

text \<open>
  \<open>handle_trident_event\<close> takes the grid too, but neither reads nor writes it; the
  messages it prints are left out.
\<close>

fun handle_trident_event :: "TridentEvent \<Rightarrow> TomographicIndex \<Rightarrow> TomographicIndex" where
  "handle_trident_event EVENT_UP idx = idx\<lparr>ti_i := c_rem (c_add (ti_i idx) 1) 10\<rparr>"
| "handle_trident_event EVENT_DOWN idx = idx\<lparr>ti_i := c_rem (c_add (c_sub (ti_i idx) 1) 10) 10\<rparr>"
| "handle_trident_event EVENT_LEFT idx = idx\<lparr>ti_j := c_rem (c_add (c_sub (ti_j idx) 1) 10) 10\<rparr>"
| "handle_trident_event EVENT_RIGHT idx = idx\<lparr>ti_j := c_rem (c_add (ti_j idx) 1) 10\<rparr>"
| "handle_trident_event EVENT_BACK idx = idx\<lparr>ti_k := c_rem (c_add (c_sub (ti_k idx) 1) 10) 10\<rparr>"
| "handle_trident_event EVENT_START idx = idx\<lparr>ti_i := 0, ti_j := 0, ti_k := 0\<rparr>"
| "handle_trident_event EVENT_ENTER idx = idx"
| "handle_trident_event EVENT_STOP idx = idx"

text \<open>A sequence of events, handled one after the other as the loop of \<open>main\<close> does.\<close>

definition handle_events :: "TridentEvent list \<Rightarrow> TomographicIndex \<Rightarrow> TomographicIndex" where
  "handle_events evs idx = fold handle_trident_event evs idx"

text \<open>The coordinate range of the navigation: every coordinate in \<open>0..9\<close>.\<close>

definition in_range :: "TomographicIndex \<Rightarrow> bool" where
  "in_range idx = (0 \<le> ti_i idx \<and> ti_i idx < 10 \<and> 0 \<le> ti_j idx \<and> ti_j idx < 10
                   \<and> 0 \<le> ti_k idx \<and> ti_k idx < 10)"

text \<open>The index \<open>main\<close> starts from: \<open>init_tomographic_index(&idx, 0, 0, 0)\<close>.\<close>

definition origin :: "TomographicIndex \<Rightarrow> TomographicIndex" where
  "origin idx = init_tomographic_index idx 0 0 0"

section \<open>The byte engine, nsigii\_minimal.c\<close>

text \<open>
  The fields of the governance vector, the packet entropy and the threshold \<open>0.1f\<close>
  are of type \<open>float\<close>.
\<close>

record GovernanceVector =
  attack_risk :: float32
  rollback_cost :: float32
  stability_impact :: float32

datatype DataChannel = RED_CHANNEL | GREEN_CHANNEL | BLUE_CHANNEL | CYAN_CHANNEL

definition DATA_SIZE :: nat where
  "DATA_SIZE = 1024"

definition SPARSE_FACTOR :: nat where
  "SPARSE_FACTOR = 4"

definition ACTIVE_SIZE_min :: nat where
  "ACTIVE_SIZE_min = DATA_SIZE div SPARSE_FACTOR"

text \<open>
  \<open>struct SparseNode\<close> of nsigii\_minimal.c: \<open>uint8_t value; bool active;
  GovernanceVector vector; DataChannel channel; int8_t polarity\<close>. The polarity is an
  \<open>int\<close> between -128 and 127.
\<close>

record SparseNode_min =
  sn_value :: "8 word"
  sn_active :: bool
  sn_vector :: GovernanceVector
  sn_channel :: DataChannel
  sn_polarity :: int

text \<open>An array of the C program is a function from the index to the element.\<close>

record TomographicGrid =
  red :: "nat \<Rightarrow> SparseNode_min"
  green :: "nat \<Rightarrow> SparseNode_min"
  blue :: "nat \<Rightarrow> SparseNode_min"
  cyan :: "nat \<Rightarrow> SparseNode_min"
  active_count :: nat

definition to_int8 :: "int \<Rightarrow> int" where
  "to_int8 x = (x + 128) mod 256 - 128"

text \<open>
  One pass of the loop of \<open>combine_channels\<close>. The two \<open>uint8_t\<close> values are
  promoted to \<open>int\<close> before they are added and halved, and the quotient is stored
  back into a \<open>uint8_t\<close>. There is no \<open>else\<close> branch: where one of the two inputs is
  inactive, \<open>cyan[i]\<close> keeps what it held.
\<close>

definition combine_step ::
  "(nat \<Rightarrow> SparseNode_min) \<Rightarrow> (nat \<Rightarrow> SparseNode_min) \<Rightarrow> nat \<Rightarrow> (nat \<Rightarrow> SparseNode_min) \<Rightarrow> (nat \<Rightarrow> SparseNode_min)" where
  "combine_step r g i c =
     (if sn_active (r i) \<and> sn_active (g i) then
        c(i := (c i)\<lparr>
          sn_value := word_of_int ((uint (sn_value (r i)) + uint (sn_value (g i))) sdiv 2),
          sn_active := True,
          sn_vector := (sn_vector (c i))\<lparr>
            attack_risk :=
              fdiv_int (fadd (attack_risk (sn_vector (r i))) (attack_risk (sn_vector (g i)))) 2,
            rollback_cost :=
              fdiv_int (fadd (rollback_cost (sn_vector (r i))) (rollback_cost (sn_vector (g i)))) 2,
            stability_impact :=
              fdiv_int (fadd (stability_impact (sn_vector (r i))) (stability_impact (sn_vector (g i)))) 2\<rparr>,
          sn_channel := CYAN_CHANNEL,
          sn_polarity := to_int8 ((sn_polarity (r i) + sn_polarity (g i)) sdiv 2)\<rparr>)
      else c)"

definition combine_channels ::
  "(nat \<Rightarrow> SparseNode_min) \<Rightarrow> (nat \<Rightarrow> SparseNode_min) \<Rightarrow> (nat \<Rightarrow> SparseNode_min) \<Rightarrow> nat \<Rightarrow> (nat \<Rightarrow> SparseNode_min)" where
  "combine_channels c r g n = fold (combine_step r g) [0..<n] c"

subsection \<open>The protocol cycle\<close>

datatype error = OutOfBounds

text \<open>
  \<open>struct NsigiiPacket\<close>: of its fields the cycle writes \<open>data\<close>, \<open>length\<close> and
  \<open>entropy\<close> only. \<open>pk_data\<close> is the list of the bytes \<open>data[0]\<close> to
  \<open>data[length - 1]\<close>, so \<open>length\<close> is its length; the buffer has 256 bytes, and a
  write past its end is the error \<open>OutOfBounds\<close>, as is an access to a channel array
  outside \<open>0 .. ACTIVE_SIZE - 1\<close>.
\<close>

record NsigiiPacket =
  pk_data :: "8 word list"
  pk_entropy :: float32

definition PACKET_DATA_SIZE :: nat where
  "PACKET_DATA_SIZE = 256"

definition push_byte :: "8 word \<Rightarrow> 8 word list \<Rightarrow> error + 8 word list" where
  "push_byte v d = (if length d < PACKET_DATA_SIZE then Inr (d @ [v]) else Inl OutOfBounds)"

text \<open>\<open>(i * 100 + j * 10 + k) % ACTIVE_SIZE\<close>, in the arithmetic of \<open>int\<close>.\<close>

definition linear_idx :: "int \<times> int \<times> int \<Rightarrow> int" where
  "linear_idx p =
     (case p of (i, j, k) \<Rightarrow>
        c_rem (c_add (c_add (c_mul i 100) (c_mul j 10)) k) (int ACTIVE_SIZE_min))"

text \<open>The body of the loop over the 6 permutations, on the bytes written so far.\<close>

definition encode_step :: "TomographicGrid \<Rightarrow> int \<times> int \<times> int \<Rightarrow> error + 8 word list \<Rightarrow> error + 8 word list" where
  "encode_step grid p acc =
     (case acc of
        Inl e \<Rightarrow> Inl e
      | Inr d \<Rightarrow>
          (let l = linear_idx p in
           if l < 0 \<or> int ACTIVE_SIZE_min \<le> l then Inl OutOfBounds
           else
             (case (if sn_active (red grid (nat l))
                    then push_byte (sn_value (red grid (nat l))) d else Inr d) of
                Inl e \<Rightarrow> Inl e
              | Inr d1 \<Rightarrow>
                  (if sn_active (green grid (nat l))
                   then push_byte (sn_value (green grid (nat l))) d1 else Inr d1))))"

definition encode_state :: "TomographicGrid \<Rightarrow> TomographicIndex \<Rightarrow> error + 8 word list" where
  "encode_state grid idx =
     fold (encode_step grid) (map (\<lambda>p. permutations idx ! p) [0..<6]) (Inr [])"

text \<open>
  Step 2: the bytes are added one by one to the float \<open>sum\<close>, which is divided by
  their number; 0 for an empty packet.
\<close>

definition packet_entropy :: "8 word list \<Rightarrow> float32" where
  "packet_entropy d =
     (if length d > 0
      then fdiv_int (fold (\<lambda>b s. fadd s (Finite (real (unat b)))) d (Finite 0)) (length d)
      else Finite 0)"

text \<open>
  Step 4: the loop over the whole red array, which adds up the vectors of the active
  nodes and counts them, and the division by the count when it is positive.
\<close>

definition zero_vector :: GovernanceVector where
  "zero_vector = \<lparr>attack_risk = Finite 0, rollback_cost = Finite 0, stability_impact = Finite 0\<rparr>"

definition verify_step :: "TomographicGrid \<Rightarrow> nat \<Rightarrow> GovernanceVector \<times> nat \<Rightarrow> GovernanceVector \<times> nat" where
  "verify_step grid i acc =
     (case acc of (avg, count) \<Rightarrow>
        if sn_active (red grid i) then
          (avg\<lparr>attack_risk := fadd (attack_risk avg) (attack_risk (sn_vector (red grid i))),
               rollback_cost := fadd (rollback_cost avg) (rollback_cost (sn_vector (red grid i))),
               stability_impact :=
                 fadd (stability_impact avg) (stability_impact (sn_vector (red grid i)))\<rparr>,
           count + 1)
        else (avg, count))"

definition avg_vector :: "TomographicGrid \<Rightarrow> GovernanceVector" where
  "avg_vector grid =
     (case fold (verify_step grid) [0..<ACTIVE_SIZE_min] (zero_vector, 0) of (avg, count) \<Rightarrow>
        if count > 0 then
          avg\<lparr>attack_risk := fdiv_int (attack_risk avg) count,
              rollback_cost := fdiv_int (rollback_cost avg) count,
              stability_impact := fdiv_int (stability_impact avg) count\<rparr>
        else avg)"

text \<open>
  The cycle returns nothing and prints the packet, the risk vector and one of two verdict
  lines; the model returns what it prints.
\<close>

record CycleReport =
  cr_packet :: NsigiiPacket
  cr_risk :: GovernanceVector
  cr_balanced :: bool

definition nsigii_protocol_cycle :: "TomographicGrid \<Rightarrow> TomographicIndex \<Rightarrow> error + CycleReport" where
  "nsigii_protocol_cycle grid idx =
     (case encode_state grid idx of
        Inl e \<Rightarrow> Inl e
      | Inr d \<Rightarrow>
          Inr \<lparr>cr_packet = \<lparr>pk_data = d, pk_entropy = packet_entropy d\<rparr>,
               cr_risk = avg_vector grid,
               cr_balanced = flt (attack_risk (avg_vector grid)) FLT_TENTH\<rparr>)"

section \<open>The double engine, nsigii\_dimensional.c\<close>

text \<open>
  A \<open>double\<close> is a real number here: rounding, infinities and NaN are not modelled.
\<close>

definition GRID_SIZE :: nat where
  "GRID_SIZE = 10"

definition ACTIVE_SIZE_dim :: nat where
  "ACTIVE_SIZE_dim = (GRID_SIZE * GRID_SIZE * GRID_SIZE) div SPARSE_FACTOR"

definition HARMONICS :: int where
  "HARMONICS = 9"

datatype ColorChannel = RED | GREEN | BLUE | CYAN

text \<open>
  \<open>struct DerivativeNode { double value; int order; double trace[5]; bool terminated; }\<close>
\<close>

record DerivativeNode =
  dn_value :: real
  dn_order :: int
  dn_trace :: "nat \<Rightarrow> real"
  dn_terminated :: bool

record SparseNode_dim =
  sd_value :: real
  sd_channel :: ColorChannel
  sd_active :: bool
  sd_idx :: TomographicIndex
  sd_deriv :: DerivativeNode
  sd_entropy :: real
  sd_polarity :: real

text \<open>\<open>SparseNode grid[ACTIVE_SIZE][4]\<close>: slot, then channel.\<close>

type_synonym grid_dim = "nat \<Rightarrow> ColorChannel \<Rightarrow> SparseNode_dim"

text \<open>
  The loop of \<open>fourier_square\<close>: \<open>for (n = 1; n <= harmonics; n += 2) result += sin(n * x) / n\<close>.
\<close>

function fourier_loop :: "real \<Rightarrow> int \<Rightarrow> int \<Rightarrow> real \<Rightarrow> real" where
  "fourier_loop x harmonics n result =
     (if n \<le> harmonics
      then fourier_loop x harmonics (n + 2) (result + sin (real_of_int n * x) / real_of_int n)
      else result)"
  by pat_completeness auto
termination
  by (relation "measure (\<lambda>(x, harmonics, n, result). nat (harmonics + 1 - n))") auto

definition fourier_square :: "real \<Rightarrow> int \<Rightarrow> real" where
  "fourier_square x harmonics = (4 / pi) * fourier_loop x harmonics 1 0"

text \<open>
  \<open>trace_derivative\<close>, statement by statement: the two stores of \<open>initial\<close>, the
  arrays \<open>coeffs\<close> and \<open>t_powers\<close>, the loop that adds up the value, the five trace
  entries, the termination flag and the order.
\<close>

definition trace_derivative :: "DerivativeNode \<Rightarrow> real \<Rightarrow> real \<Rightarrow> DerivativeNode" where
  "trace_derivative node initial time =
     (let n1 = node\<lparr>dn_value := initial\<rparr>;
          n2 = n1\<lparr>dn_trace := (dn_trace n1)(0 := initial)\<rparr>;
          coeffs = [4, 3, 2, 1];
          t_powers = [1, time, time * time, time * time * time];
          n3 = n2\<lparr>dn_value := 0\<rparr>;
          n4 = fold (\<lambda>i n. n\<lparr>dn_value := dn_value n + coeffs ! i * t_powers ! i\<rparr>) [0..<4] n3;
          n5 = n4\<lparr>dn_trace := (dn_trace n4)(0 := dn_value n4)\<rparr>;
          n6 = n5\<lparr>dn_trace := (dn_trace n5)
                 (1 := coeffs ! 1 + 2 * coeffs ! 2 * time + 3 * coeffs ! 3 * time * time)\<rparr>;
          n7 = n6\<lparr>dn_trace := (dn_trace n6)(2 := 2 * coeffs ! 2 + 6 * coeffs ! 3 * time)\<rparr>;
          n8 = n7\<lparr>dn_trace := (dn_trace n7)(3 := 6 * coeffs ! 3)\<rparr>;
          n9 = n8\<lparr>dn_trace := (dn_trace n8)(4 := 0)\<rparr>;
          n10 = n9\<lparr>dn_terminated := (\<bar>dn_trace n9 4\<bar> < 1 / 10 ^ 10)\<rparr>
      in n10\<lparr>dn_order := 4\<rparr>)"

subsection \<open>The pseudo-random source\<close>

text \<open>
  \<open>rand()\<close> of the C library: the state is the sequence of the numbers still to come,
  a call returns the first and leaves the rest. \<open>RAND_MAX\<close> is the C library's
  constant (the value of glibc).
\<close>

type_synonym rand_state = "nat \<Rightarrow> int"

definition rand :: "rand_state \<Rightarrow> int \<times> rand_state" where
  "rand s = (s 0, \<lambda>n. s (Suc n))"

definition RAND_MAX :: int where
  "RAND_MAX = 2147483647"

subsection \<open>Initialisation of the grid\<close>

text \<open>
  The state of the three nested loops of \<open>init_sparse_grid\<close>: the grid, the counter
  \<open>linear_idx\<close> and the random source.
\<close>

record init_state =
  is_grid :: grid_dim
  is_linear :: nat
  is_rand :: rand_state

definition init_cell :: "nat \<Rightarrow> nat \<Rightarrow> nat \<Rightarrow> init_state \<Rightarrow> init_state" where
  "init_cell i j k st =
     (if (i + j + k) mod SPARSE_FACTOR = 0 \<and> is_linear st < ACTIVE_SIZE_dim then
        (let grid = is_grid st;
             l = is_linear st;
             (r1, s1) = rand (is_rand st);
             (r2, s2) = rand s1;
             (r3, s3) = rand s2;
             time_base = real (i + j + k) * (1 / 10);
             rd = (grid l RED)\<lparr>
                    sd_value := fourier_square (real (i + j + k)) HARMONICS,
                    sd_active := True,
                    sd_channel := RED,
                    sd_entropy := 1 / 2 + real_of_int r1 / real_of_int RAND_MAX * (1 / 2),
                    sd_polarity := 1,
                    sd_idx := init_tomographic_index (sd_idx (grid l RED)) (int i) (int j) (int k)\<rparr>;
             gn = (grid l GREEN)\<lparr>
                    sd_value := fourier_square (real (i + j + k) + 1 / 2) HARMONICS,
                    sd_active := True,
                    sd_channel := GREEN,
                    sd_entropy := 1 / 2 + real_of_int r2 / real_of_int RAND_MAX * (1 / 2),
                    sd_polarity := - 1\<rparr>;
             bl = (grid l BLUE)\<lparr>
                    sd_value := fourier_square (real (i + j + k) + 1) HARMONICS,
                    sd_active := True,
                    sd_channel := BLUE,
                    sd_entropy := 1 / 2 + real_of_int r3 / real_of_int RAND_MAX * (1 / 2),
                    sd_polarity := 0\<rparr>;
             cy = (grid l CYAN)\<lparr>
                    sd_value := (sd_value rd + sd_value gn) / 2,
                    sd_active := True,
                    sd_channel := CYAN,
                    sd_entropy := (sd_entropy rd + sd_entropy gn) / 2,
                    sd_polarity := 0\<rparr>;
             rd' = rd\<lparr>sd_deriv := trace_derivative (sd_deriv rd) (sd_value rd) time_base\<rparr>;
             gn' = gn\<lparr>sd_deriv := trace_derivative (sd_deriv gn) (sd_value gn) time_base\<rparr>;
             bl' = bl\<lparr>sd_deriv := trace_derivative (sd_deriv bl) (sd_value bl) time_base\<rparr>;
             cy' = cy\<lparr>sd_deriv := trace_derivative (sd_deriv cy) (sd_value cy) time_base\<rparr>
         in \<lparr>is_grid = grid(l := (grid l)(RED := rd', GREEN := gn', BLUE := bl', CYAN := cy')),
             is_linear = l + 1,
             is_rand = s3\<rparr>)
      else st)"

definition init_loops :: "init_state \<Rightarrow> init_state" where
  "init_loops st =
     fold (\<lambda>i. fold (\<lambda>j. fold (\<lambda>k. init_cell i j k) [0..<GRID_SIZE]) [0..<GRID_SIZE])
       [0..<GRID_SIZE] st"

text \<open>
  \<open>init_sparse_grid\<close> gets the memory of the grid as it is (\<open>main\<close> declares the array
  without an initialiser) and returns it initialised, with the random source it leaves.
\<close>

definition init_sparse_grid_dim :: "grid_dim \<Rightarrow> rand_state \<Rightarrow> grid_dim \<times> rand_state" where
  "init_sparse_grid_dim grid s =
     (let st = init_loops \<lparr>is_grid = grid, is_linear = 0, is_rand = s\<rparr>
      in (is_grid st, is_rand st))"

subsection \<open>The verification cycle (refresh)\<close>

record cycle_state =
  vc_grid :: grid_dim
  vc_rand :: rand_state
  vc_active_count :: "ColorChannel \<Rightarrow> nat"
  vc_total_entropy :: real

definition refresh_cell :: "int \<Rightarrow> nat \<Rightarrow> ColorChannel \<Rightarrow> cycle_state \<Rightarrow> cycle_state" where
  "refresh_cell cycle i ch st =
     (if sd_active (vc_grid st i ch) then
        (let grid = vc_grid st;
             phase = real_of_int cycle * (1 / 10) + real i * (1 / 100);
             v = fourier_square phase (c_add HARMONICS (c_rem cycle 5));
             d = trace_derivative (sd_deriv (grid i ch)) v phase;
             (r, s1) = rand (vc_rand st);
             noise = real_of_int r / real_of_int RAND_MAX * (1 / 10) - 5 / 100;
             e = 1 / 2 + \<bar>v\<bar> * (3 / 10) + noise
         in \<lparr>vc_grid = grid(i := (grid i)(ch := (grid i ch)\<lparr>sd_value := v, sd_deriv := d, sd_entropy := e\<rparr>)),
             vc_rand = s1,
             vc_active_count = (vc_active_count st)(ch := vc_active_count st ch + 1),
             vc_total_entropy = vc_total_entropy st + e\<rparr>)
      else st)"

definition nsigii_verification_cycle :: "grid_dim \<Rightarrow> rand_state \<Rightarrow> int \<Rightarrow> cycle_state" where
  "nsigii_verification_cycle grid s cycle =
     fold (\<lambda>i. fold (refresh_cell cycle i) [RED, GREEN, BLUE, CYAN]) [0..<ACTIVE_SIZE_dim]
       \<lparr>vc_grid = grid, vc_rand = s, vc_active_count = (\<lambda>ch. 0), vc_total_entropy = 0\<rparr>"

text \<open>
  The grid and the random source after the cycles \<open>cycles\<close>, run in this order on the
  result of the one before (\<open>main\<close> runs the cycles 0, 1 and 2).
\<close>

fun run_cycles :: "int list \<Rightarrow> grid_dim \<times> rand_state \<Rightarrow> grid_dim \<times> rand_state" where
  "run_cycles [] gs = gs"
| "run_cycles (c # cs) gs =
     (let st = nsigii_verification_cycle (fst gs) (snd gs) c
      in run_cycles cs (vc_grid st, vc_rand st))"

text \<open>The number of slots of the grid whose cell of channel \<open>ch\<close> is active.\<close>

definition count_active :: "grid_dim \<Rightarrow> ColorChannel \<Rightarrow> nat" where
  "count_active grid ch = length (filter (\<lambda>i. sd_active (grid i ch)) [0..<ACTIVE_SIZE_dim])"

section \<open>Cleared memory\<close>

text \<open>
  Concrete inputs for the evaluations below: memory in which every byte is zero.
\<close>

definition blank_index :: TomographicIndex where
  "blank_index = \<lparr>ti_i = 0, ti_j = 0, ti_k = 0,
     permutations = [(0, 0, 0), (0, 0, 0), (0, 0, 0), (0, 0, 0), (0, 0, 0), (0, 0, 0)]\<rparr>"

definition zero_node_min :: SparseNode_min where
  "zero_node_min = \<lparr>sn_value = 0, sn_active = False, sn_vector = zero_vector,
     sn_channel = RED_CHANNEL, sn_polarity = 0\<rparr>"

definition zero_array_min :: "nat \<Rightarrow> SparseNode_min" where
  "zero_array_min i = zero_node_min"

definition blank_grid_min :: TomographicGrid where
  "blank_grid_min = \<lparr>red = zero_array_min, green = zero_array_min,
     blue = zero_array_min, cyan = zero_array_min, active_count = 0\<rparr>"

text \<open>
  The polarity \<open>init_sparse_grid\<close> of the byte engine gives the nodes of a channel, and
  an array of which every node has the channel \<open>ch\<close>, the value \<open>v\<close> and the flag \<open>a\<close>.
\<close>

fun channel_polarity :: "DataChannel \<Rightarrow> int" where
  "channel_polarity RED_CHANNEL = 1"
| "channel_polarity GREEN_CHANNEL = - 1"
| "channel_polarity BLUE_CHANNEL = 0"
| "channel_polarity CYAN_CHANNEL = 0"

definition byte_array :: "DataChannel \<Rightarrow> 8 word \<Rightarrow> bool \<Rightarrow> nat \<Rightarrow> SparseNode_min" where
  "byte_array ch v a i = \<lparr>sn_value = v, sn_active = a, sn_vector = zero_vector,
     sn_channel = ch, sn_polarity = channel_polarity ch\<rparr>"

definition blank_trace :: "nat \<Rightarrow> real" where
  "blank_trace n = 0"

definition blank_deriv :: DerivativeNode where
  "blank_deriv = \<lparr>dn_value = 0, dn_order = 0, dn_trace = blank_trace, dn_terminated = False\<rparr>"

definition blank_node_dim :: SparseNode_dim where
  "blank_node_dim = \<lparr>sd_value = 0, sd_channel = RED, sd_active = False, sd_idx = blank_index,
     sd_deriv = blank_deriv, sd_entropy = 0, sd_polarity = 0\<rparr>"

definition blank_grid_dim :: grid_dim where
  "blank_grid_dim i ch = blank_node_dim"

definition zero_rand :: rand_state where
  "zero_rand n = 0"

section \<open>The mean of the spec\<close>






text \<open>
  A permutation row of which the protocol cycle can compute the linear index within
  \<open>int\<close>: no entry is negative, and \<open>i * 100 + j * 10 + k\<close> is at most \<open>INT_MAX\<close>.
\<close>

definition row_fits :: "int \<times> int \<times> int \<Rightarrow> bool" where
  "row_fits p = (case p of (i, j, k) \<Rightarrow> 0 \<le> i \<and> 0 \<le> j \<and> 0 \<le> k \<and> i * 100 + j * 10 + k \<le> INT_MAX)"

text \<open>The rows with non-negative entries, of whatever size.\<close>

definition row_nonneg :: "int \<times> int \<times> int \<Rightarrow> bool" where
  "row_nonneg p = (case p of (i, j, k) \<Rightarrow> 0 \<le> i \<and> 0 \<le> j \<and> 0 \<le> k)"

text \<open>The precondition on an index: each of the 6 rows the cycle reads fits, or is non-negative.\<close>

definition perms_fit :: "TomographicIndex \<Rightarrow> bool" where
  "perms_fit idx = list_all row_fits (map (\<lambda>p. permutations idx ! p) [0..<6])"

definition perms_nonneg :: "TomographicIndex \<Rightarrow> bool" where
  "perms_nonneg idx = list_all row_nonneg (map (\<lambda>p. permutations idx ! p) [0..<6])"

section \<open>Two grids of the byte engine\<close>

text \<open>
  A grid in which every red cell holds 200 and every green cell 100, all active, each with
  the risk vector \<open>(1/16, 1/32, 1/8)\<close>, and the report of the protocol cycle on it at
  the index \<open>(1,2,3)\<close>.
\<close>

definition risk_array :: "DataChannel \<Rightarrow> 8 word \<Rightarrow> real \<Rightarrow> nat \<Rightarrow> SparseNode_min" where
  "risk_array ch v x i = \<lparr>sn_value = v, sn_active = True,
     sn_vector = \<lparr>attack_risk = Finite x, rollback_cost = Finite (x / 2),
                  stability_impact = Finite (2 * x)\<rparr>,
     sn_channel = ch, sn_polarity = channel_polarity ch\<rparr>"

definition demo_grid_min :: TomographicGrid where
  "demo_grid_min = \<lparr>red = risk_array RED_CHANNEL 200 (1 / 16),
     green = risk_array GREEN_CHANNEL 100 (1 / 16),
     blue = zero_array_min, cyan = zero_array_min, active_count = 0\<rparr>"






section \<open>Notions for the proofs about the double engine\<close>


text \<open>What one pass of the innermost loop of \<open>init_sparse_grid\<close> does to \<open>linear_idx\<close>.\<close>

definition count_step :: "nat \<Rightarrow> nat \<Rightarrow> nat \<Rightarrow> nat \<Rightarrow> nat" where
  "count_step i j k l = (if (i + j + k) mod SPARSE_FACTOR = 0 \<and> l < ACTIVE_SIZE_dim then l + 1 else l)"

text \<open>
  The red, green and cyan cells of slot \<open>n\<close> are active and the cyan value is the mean of
  the other two.
\<close>

definition consensus_at :: "grid_dim \<Rightarrow> nat \<Rightarrow> bool" where
  "consensus_at g n =
     (sd_active (g n RED) \<and> sd_active (g n GREEN) \<and> sd_active (g n CYAN)
      \<and> sd_value (g n CYAN) = (sd_value (g n RED) + sd_value (g n GREEN)) / 2)"

text \<open>
  The invariant of the loops of \<open>init_sparse_grid\<close> over the memory \<open>g0\<close> they
  started from: the slots below \<open>linear_idx\<close> are written, the others are as they were.
\<close>

definition init_inv :: "grid_dim \<Rightarrow> init_state \<Rightarrow> bool" where
  "init_inv g0 st =
     ((\<forall>n<is_linear st. consensus_at (is_grid st) n) \<and> (\<forall>n\<ge>is_linear st. is_grid st n = g0 n))"

section \<open>Rounding to single precision\<close>

lemma rne_of_int: "rne (real_of_int k) = k"
  by (simp add: rne_def)

lemma powr_powi: "(2 :: real) powr real_of_int n = 2 powi n"
  by (simp add: powr_real_of_int')



lemma fexp_le:
  assumes "x \<noteq> 0" and "\<bar>x\<bar> < 2 powi (n + 1)" and "- 126 \<le> n"
  shows "fexp x \<le> n"
proof -
  have "\<bar>x\<bar> < 2 powr real_of_int (n + 1)"
    using assms(2) by (simp only: powr_powi)
  with assms(1) have "log 2 \<bar>x\<bar> < real_of_int (n + 1)"
    by (subst log_less_iff) auto
  then have "\<lfloor>log 2 \<bar>x\<bar>\<rfloor> < n + 1"
    by (simp only: floor_less_iff)
  with assms(3) show ?thesis by (simp add: fexp_def)
qed

text \<open>
  A number with a significand of at most 24 bits and an exponent the format has is a
  float: rounding leaves it as it is.
\<close>

lemma round32_repr:
  assumes "\<bar>m\<bar> < 2 ^ 24" and "- 149 \<le> k"
  shows "round32 (real_of_int m * 2 powi k) = real_of_int m * 2 powi k"
proof (cases "m = 0")
  case True
  then show ?thesis by (simp add: round32_def)
next
  case False
  let ?x = "real_of_int m * 2 powi k"
  have x0: "?x \<noteq> 0" using False by simp
  have "\<bar>?x\<bar> = real_of_int \<bar>m\<bar> * 2 powi k"
    by (simp add: abs_mult)
  also have "\<dots> < 2 ^ 24 * 2 powi k"
  proof -
    have "real_of_int \<bar>m\<bar> < 2 ^ 24"
      using assms(1) by (metis of_int_less_numeral_power_cancel_iff)
    then show ?thesis by simp
  qed
  also have "\<dots> = 2 powi (k + 23 + 1)"
    by (simp add: power_int_add)
  finally have "fexp ?x \<le> k + 23"
    using x0 assms(2) by (intro fexp_le) auto
  then obtain d where d: "k + 23 - fexp ?x = int d"
    by (metis diff_ge_0_iff_ge nonneg_int_cases)
  then have kd: "k = fexp ?x - 23 + int d" by simp
  have "?x / 2 powi (fexp ?x - 23) = real_of_int m * 2 powi (int d)"
    by (subst kd) (simp add: power_int_add)
  also have "\<dots> = real_of_int (m * 2 ^ d)"
    by simp
  finally have q: "?x / 2 powi (fexp ?x - 23) = real_of_int (m * 2 ^ d)" .
  have "round32 ?x = real_of_int (m * 2 ^ d) * 2 powi (fexp ?x - 23)"
    using x0 by (simp only: round32_def q rne_of_int if_False)
  also have "\<dots> = real_of_int m * (2 powi (int d) * 2 powi (fexp ?x - 23))"
    by simp
  also have "2 powi (int d) * 2 powi (fexp ?x - 23) = (2 :: real) powi k"
    by (subst kd) (simp add: power_int_add)
  finally show ?thesis .
qed

lemma fround_finite: "\<bar>round32 x\<bar> \<le> FLT_MAX \<Longrightarrow> fround x = Finite (round32 x)"
  by (auto simp add: fround_def Let_def)

lemma fround_dyadic:
  assumes "\<bar>m\<bar> < 2 ^ 24" and "n \<le> 149"
  shows "fround (real_of_int m / 2 ^ n) = Finite (real_of_int m / 2 ^ n)"
proof -
  have eq: "real_of_int m / 2 ^ n = real_of_int m * 2 powi (- int n)"
    by (simp add: power_int_minus field_simps)
  have r: "round32 (real_of_int m / 2 ^ n) = real_of_int m / 2 ^ n"
    unfolding eq using assms by (intro round32_repr) auto
  from assms(1) have "\<bar>m\<bar> \<le> 2 ^ 24 - 1" by simp
  then have "real_of_int \<bar>m\<bar> \<le> real_of_int (2 ^ 24 - 1)"
    by (simp only: of_int_le_iff)
  then have "\<bar>real_of_int m\<bar> \<le> 2 ^ 24 - 1"
    by simp
  moreover have "(1 :: real) \<le> 2 ^ n" by simp
  ultimately have "\<bar>real_of_int m / 2 ^ n\<bar> \<le> (2 ^ 24 - 1) / 1"
    unfolding abs_divide by (intro frac_le) auto
  also have "\<dots> \<le> FLT_MAX"
    by (simp add: FLT_MAX_def)
  finally show ?thesis
    by (simp add: fround_finite r)
qed

lemma fround_int: "\<bar>m\<bar> < 2 ^ 24 \<Longrightarrow> fround (real_of_int m) = Finite (real_of_int m)"
  using fround_dyadic [of m 0] by simp

lemma fround_nat: "n < 2 ^ 24 \<Longrightarrow> fround (real n) = Finite (real n)"
  using fround_int [of "int n"] by simp






section \<open>Navigation and the linear index\<close>

lemma up_wraps: "0 \<le> x \<Longrightarrow> x < 10 \<Longrightarrow> c_rem (c_add x 1) 10 = (x + 1) mod 10"
  by (simp add: c_rem_def c_add_def wrap32_def signed_modulo_int_def sgn_if add.commute)

lemma down_wraps: "0 \<le> x \<Longrightarrow> x < 10 \<Longrightarrow> c_rem (c_add (c_sub x 1) 10) 10 = (x + 9) mod 10"
  by (simp add: c_rem_def c_add_def c_sub_def wrap32_def signed_modulo_int_def sgn_if add.commute)

lemma handle_in_range: "in_range idx \<Longrightarrow> in_range (handle_trident_event e idx)"
  by (cases e) (simp_all add: in_range_def up_wraps down_wraps)

lemma handle_events_in_range: "in_range idx \<Longrightarrow> in_range (handle_events evs idx)"
  unfolding handle_events_def
  by (induction evs arbitrary: idx) (simp_all add: handle_in_range)

lemma origin_in_range: "in_range (origin idx)"
  by (simp add: origin_def init_tomographic_index_def in_range_def)

lemma up_at: "0 \<le> x \<Longrightarrow> x < 10 \<Longrightarrow> c_rem (c_add x 1) 10 = (x + 1) mod 10"
  by (rule up_wraps)

lemma down_at: "0 \<le> x \<Longrightarrow> x < 10 \<Longrightarrow> c_rem (c_add (c_sub x 1) 10) 10 = (x - 1) mod 10"
proof -
  assume "0 \<le> x" "x < 10"
  then have "c_rem (c_add (c_sub x 1) 10) 10 = (x + 9) mod 10"
    by (rule down_wraps)
  also have "x + 9 = x - 1 + 10"
    by simp
  also have "(x - 1 + 10) mod 10 = (x - 1) mod 10"
    by (simp only: mod_add_self2)
  finally show ?thesis .
qed

text \<open>
  Claim C8. The handler is a total function, so no transition fails. For an index whose
  coordinates are in \<open>0..9\<close>, Up and Down replace \<open>i\<close> by \<open>i + 1\<close> and \<open>i - 1\<close> modulo
  10, Right and Left replace \<open>j\<close> by \<open>j + 1\<close> and \<open>j - 1\<close> modulo 10, Back replaces
  \<open>k\<close> by \<open>k - 1\<close> modulo 10, Start resets the three coordinates to 0, Enter and Stop
  change nothing, and nothing else of the index changes; the modulus is the mathematical
  one, with a result in \<open>0..9\<close>, so the coordinates are in \<open>0..9\<close> again after any
  event and after any sequence of events. From the index \<open>(0,0,0)\<close> the events Right,
  Right, Left leave \<open>j = 1\<close>, and Down at \<open>i = 0\<close> leaves \<open>i = 9\<close>.
\<close>

theorem navigation_wraps:
  assumes "in_range idx"
  shows "handle_trident_event EVENT_UP idx = idx\<lparr>ti_i := (ti_i idx + 1) mod 10\<rparr>
     \<and> handle_trident_event EVENT_DOWN idx = idx\<lparr>ti_i := (ti_i idx - 1) mod 10\<rparr>
     \<and> handle_trident_event EVENT_LEFT idx = idx\<lparr>ti_j := (ti_j idx - 1) mod 10\<rparr>
     \<and> handle_trident_event EVENT_RIGHT idx = idx\<lparr>ti_j := (ti_j idx + 1) mod 10\<rparr>
     \<and> handle_trident_event EVENT_BACK idx = idx\<lparr>ti_k := (ti_k idx - 1) mod 10\<rparr>
     \<and> handle_trident_event EVENT_START idx = idx\<lparr>ti_i := 0, ti_j := 0, ti_k := 0\<rparr>
     \<and> handle_trident_event EVENT_ENTER idx = idx
     \<and> handle_trident_event EVENT_STOP idx = idx
     \<and> in_range (handle_trident_event e idx)
     \<and> in_range (handle_events evs idx)
     \<and> ti_j (handle_events [EVENT_RIGHT, EVENT_RIGHT, EVENT_LEFT] (origin mem)) = 1
     \<and> ti_i (handle_trident_event EVENT_DOWN (mem\<lparr>ti_i := 0\<rparr>)) = 9
     \<and> in_range (handle_events evs (origin mem))"
proof -
  from assms have r: "0 \<le> ti_i idx" "ti_i idx < 10" "0 \<le> ti_j idx" "ti_j idx < 10"
      "0 \<le> ti_k idx" "ti_k idx < 10"
    by (simp_all add: in_range_def)
  have "handle_trident_event EVENT_UP idx = idx\<lparr>ti_i := (ti_i idx + 1) mod 10\<rparr>"
    using r by (simp add: up_at)
  moreover have "handle_trident_event EVENT_DOWN idx = idx\<lparr>ti_i := (ti_i idx - 1) mod 10\<rparr>"
    using r by (simp add: down_at)
  moreover have "handle_trident_event EVENT_LEFT idx = idx\<lparr>ti_j := (ti_j idx - 1) mod 10\<rparr>"
    using r by (simp add: down_at)
  moreover have "handle_trident_event EVENT_RIGHT idx = idx\<lparr>ti_j := (ti_j idx + 1) mod 10\<rparr>"
    using r by (simp add: up_at)
  moreover have "handle_trident_event EVENT_BACK idx = idx\<lparr>ti_k := (ti_k idx - 1) mod 10\<rparr>"
    using r by (simp add: down_at)
  moreover have "handle_trident_event EVENT_START idx = idx\<lparr>ti_i := 0, ti_j := 0, ti_k := 0\<rparr>"
    by simp
  moreover have "in_range (handle_trident_event e idx)"
    using assms by (rule handle_in_range)
  moreover have "in_range (handle_events evs idx)"
    using assms by (rule handle_events_in_range)
  moreover have "ti_j (handle_events [EVENT_RIGHT, EVENT_RIGHT, EVENT_LEFT] (origin mem)) = 1"
    by (simp add: handle_events_def origin_def init_tomographic_index_def c_rem_def c_add_def
        c_sub_def wrap32_def signed_modulo_int_def)
  moreover have "ti_i (handle_trident_event EVENT_DOWN (mem\<lparr>ti_i := 0\<rparr>)) = 9"
    by (simp add: c_rem_def c_add_def c_sub_def wrap32_def signed_modulo_int_def)
  moreover have "in_range (handle_events evs (origin mem))"
    by (rule handle_events_in_range [OF origin_in_range])
  ultimately show ?thesis
    by simp
qed

theorem navigation_wraps_witness:
  "in_range (blank_index\<lparr>ti_i := 9\<rparr>)
   \<and> handle_trident_event EVENT_UP (blank_index\<lparr>ti_i := 9\<rparr>) = blank_index\<lparr>ti_i := 0\<rparr>
   \<and> handle_trident_event EVENT_DOWN (blank_index\<lparr>ti_i := 9\<rparr>) = blank_index\<lparr>ti_i := 8\<rparr>
   \<and> handle_trident_event EVENT_LEFT (blank_index\<lparr>ti_i := 9\<rparr>) = blank_index\<lparr>ti_i := 9, ti_j := 9\<rparr>
   \<and> handle_trident_event EVENT_RIGHT (blank_index\<lparr>ti_i := 9\<rparr>) = blank_index\<lparr>ti_i := 9, ti_j := 1\<rparr>
   \<and> handle_trident_event EVENT_BACK (blank_index\<lparr>ti_i := 9\<rparr>) = blank_index\<lparr>ti_i := 9, ti_k := 9\<rparr>
   \<and> in_range (handle_events [EVENT_UP, EVENT_LEFT, EVENT_BACK] (blank_index\<lparr>ti_i := 9\<rparr>))"
proof -
  have h: "in_range (blank_index\<lparr>ti_i := 9\<rparr>)"
    by (simp add: in_range_def blank_index_def)
  note t = navigation_wraps [where idx = "blank_index\<lparr>ti_i := 9\<rparr>"
      and evs = "[EVENT_UP, EVENT_LEFT, EVENT_BACK]", OF h]
  have v: "ti_i (blank_index\<lparr>ti_i := 9\<rparr>) = 9" "ti_j (blank_index\<lparr>ti_i := 9\<rparr>) = 0"
      "ti_k (blank_index\<lparr>ti_i := 9\<rparr>) = 0"
    by (simp_all add: blank_index_def)
  have m: "(9 + 1) mod 10 = (0 :: int)" "(9 - 1) mod 10 = (8 :: int)" "(0 - 1) mod 10 = (9 :: int)"
      "(0 + 1) mod 10 = (1 :: int)"
    by simp_all
  from t h show ?thesis
    by (simp only: v m) simp
qed

lemma ACTIVE_SIZE_min_256: "ACTIVE_SIZE_min = 256"
  by (simp add: ACTIVE_SIZE_min_def DATA_SIZE_def SPARSE_FACTOR_def)

lemma wrap32_id: "- 2147483648 \<le> x \<Longrightarrow> x \<le> 2147483647 \<Longrightarrow> wrap32 x = x"
  by (simp add: wrap32_def)

lemma c_rem_nonneg: "0 \<le> x \<Longrightarrow> 0 < m \<Longrightarrow> c_rem x m = x mod m"
  by (simp add: c_rem_def signed_modulo_int_def sgn_if)

lemma linear_idx_fits:
  assumes "row_fits (i, j, k)"
  shows "linear_idx (i, j, k) = (i * 100 + j * 10 + k) mod 256"
proof -
  from assms have nn: "0 \<le> i" "0 \<le> j" "0 \<le> k" and le: "i * 100 + j * 10 + k \<le> 2147483647"
    by (simp_all add: row_fits_def INT_MAX_def)
  have m1: "c_mul i 100 = i * 100"
    unfolding c_mul_def using nn le by (intro wrap32_id) auto
  have m2: "c_mul j 10 = j * 10"
    unfolding c_mul_def using nn le by (intro wrap32_id) auto
  have a1: "c_add (i * 100) (j * 10) = i * 100 + j * 10"
    unfolding c_add_def using nn le by (intro wrap32_id) auto
  have a2: "c_add (i * 100 + j * 10) k = i * 100 + j * 10 + k"
    unfolding c_add_def using nn le by (intro wrap32_id) auto
  have "0 \<le> i * 100 + j * 10 + k" using nn by simp
  then show ?thesis
    by (simp add: linear_idx_def m1 m2 a1 a2 ACTIVE_SIZE_min_256 c_rem_nonneg)
qed

lemma linear_idx_overflow: "linear_idx (21474837, 0, 0) = - 204"
proof -
  have 1: "c_mul 21474837 100 = - 2147483596" by (simp add: c_mul_def wrap32_def)
  have 2: "c_mul 0 10 = 0" by (simp add: c_mul_def wrap32_def)
  have 3: "c_add (- 2147483596) 0 = - 2147483596" by (simp add: c_add_def wrap32_def)
  have 4: "c_rem (- 2147483596) 256 = - 204" by (simp add: c_rem_def signed_modulo_int_def)
  show ?thesis
    by (simp add: linear_idx_def ACTIVE_SIZE_min_256 1 2 3 4)
qed

lemma handle_keeps_permutations: "permutations (handle_trident_event e idx) = permutations idx"
  by (cases e) simp_all

text \<open>
  Claim C1 asks that after each event the stored permutations are the 6 orderings of the
  current triple. The handler writes \<open>i\<close>, \<open>j\<close> and \<open>k\<close> only: after Start, Right, Up
  from the index initialised at \<open>(0,0,0)\<close> the triple is \<open>(1,1,0)\<close>, the stored
  permutations are still the six rows \<open>(0,0,0)\<close>, and the linear index of each is 0,
  where the orderings of \<open>(1,1,0)\<close> have the linear indices 110, 110, 101, 101, 11, 11.
\<close>

theorem events_leave_permutations_stale:
  "ti_i (handle_events [EVENT_START, EVENT_RIGHT, EVENT_UP] (origin blank_index)) = 1
   \<and> ti_j (handle_events [EVENT_START, EVENT_RIGHT, EVENT_UP] (origin blank_index)) = 1
   \<and> ti_k (handle_events [EVENT_START, EVENT_RIGHT, EVENT_UP] (origin blank_index)) = 0
   \<and> permutations (handle_events [EVENT_START, EVENT_RIGHT, EVENT_UP] (origin blank_index))
       = [(0, 0, 0), (0, 0, 0), (0, 0, 0), (0, 0, 0), (0, 0, 0), (0, 0, 0)]
   \<and> permutations (init_tomographic_index blank_index 1 1 0)
       = [(1, 1, 0), (1, 1, 0), (1, 0, 1), (1, 0, 1), (0, 1, 1), (0, 1, 1)]
   \<and> map linear_idx (permutations (handle_events [EVENT_START, EVENT_RIGHT, EVENT_UP] (origin blank_index)))
       = [0, 0, 0, 0, 0, 0]
   \<and> map linear_idx (permutations (init_tomographic_index blank_index 1 1 0))
       = [110, 110, 101, 101, 11, 11]"
proof -
  have ev: "handle_events [EVENT_START, EVENT_RIGHT, EVENT_UP] (origin blank_index)
      = \<lparr>ti_i = 1, ti_j = 1, ti_k = 0,
         permutations = [(0, 0, 0), (0, 0, 0), (0, 0, 0), (0, 0, 0), (0, 0, 0), (0, 0, 0)]\<rparr>"
    by (simp add: handle_events_def origin_def init_tomographic_index_def blank_index_def
        c_rem_def c_add_def wrap32_def signed_modulo_int_def)
  have pm: "permutations (init_tomographic_index blank_index 1 1 0)
      = [(1, 1, 0), (1, 1, 0), (1, 0, 1), (1, 0, 1), (0, 1, 1), (0, 1, 1)]"
    by (simp add: init_tomographic_index_def)
  have l0: "linear_idx (0, 0, 0) = 0"
    by (simp add: linear_idx_fits row_fits_def INT_MAX_def)
  have l1: "linear_idx (1, 1, 0) = 110" "linear_idx (1, 0, 1) = 101" "linear_idx (0, 1, 1) = 11"
    by (simp_all add: linear_idx_fits row_fits_def INT_MAX_def)
  show ?thesis
    by (simp add: ev pm l0 l1)
qed

section \<open>The derivative tracer\<close>

text \<open>
  Claim C2 gives the trace of \<open>trace_derivative(node, 1.0, 2.0)\<close> as 26, 17, 10, 6, 0.
  The second and third entries are not those: the claim is false as it stands.
\<close>

theorem trace_reference_counterexample:
  "\<not> (dn_trace (trace_derivative blank_deriv 1 2) 0 = 26
      \<and> dn_trace (trace_derivative blank_deriv 1 2) 1 = 17
      \<and> dn_trace (trace_derivative blank_deriv 1 2) 2 = 10
      \<and> dn_trace (trace_derivative blank_deriv 1 2) 3 = 6
      \<and> dn_trace (trace_derivative blank_deriv 1 2) 4 = 0
      \<and> dn_terminated (trace_derivative blank_deriv 1 2))"
  by (simp add: trace_derivative_def Let_def upt_conv_Cons)

text \<open>
  Claim C2, amended. With the coefficients \<open>(4,3,2,1)\<close>, the initial value 1 and
  \<open>t = 2\<close>, the five trace entries are 26 for \<open>f\<close>, 23 for its first derivative,
  16 for the second, 6 for the third and 0 for the fourth, and \<open>terminated\<close> is true,
  whatever the node held before. Every intermediate value is a small integer, which a
  \<open>double\<close> holds exactly.
\<close>

theorem trace_reference_values:
  "dn_trace (trace_derivative node 1 2) 0 = 26
   \<and> dn_trace (trace_derivative node 1 2) 1 = 23
   \<and> dn_trace (trace_derivative node 1 2) 2 = 16
   \<and> dn_trace (trace_derivative node 1 2) 3 = 6
   \<and> dn_trace (trace_derivative node 1 2) 4 = 0
   \<and> dn_terminated (trace_derivative node 1 2)"
  by (simp add: trace_derivative_def Let_def upt_conv_Cons)

text \<open>
  Claim C10. For every initial value and every time the tracer sets \<open>trace[4] = 0\<close>,
  \<open>order = 4\<close> and \<open>terminated = true\<close>, and the node it leaves, the five trace
  entries with it, is the same for any two initial values.
\<close>

theorem trace_always_terminated:
  "dn_trace (trace_derivative node initial time) 4 = 0
   \<and> dn_order (trace_derivative node initial time) = 4
   \<and> dn_terminated (trace_derivative node initial time)
   \<and> map (dn_trace (trace_derivative node initial time)) [0..<5]
       = map (dn_trace (trace_derivative node initial' time)) [0..<5]
   \<and> trace_derivative node initial time = trace_derivative node initial' time"
  by (simp add: trace_derivative_def Let_def upt_conv_Cons)

section \<open>The channel combiner\<close>

lemma combine_step_other: "n \<noteq> i \<Longrightarrow> combine_step r g i c n = c n"
  by (simp add: combine_step_def)

lemma combine_step_cong: "c m = c' m \<Longrightarrow> combine_step r g m c m = combine_step r g m c' m"
  by (simp add: combine_step_def)

lemma combine_fold_untouched: "n \<notin> set is \<Longrightarrow> fold (combine_step r g) is c n = c n"
  by (induction "is" arbitrary: c) (simp_all add: combine_step_other)

lemma combine_fold_upt:
  "fold (combine_step r g) [0..<m] c n = (if n < m then combine_step r g n c n else c n)"
proof (induction m)
  case 0
  then show ?case by simp
next
  case (Suc m)
  show ?case
  proof (cases "n = m")
    case True
    have "fold (combine_step r g) [0..<m] c m = c m"
      by (rule combine_fold_untouched) simp
    then have "combine_step r g m (fold (combine_step r g) [0..<m] c) m = combine_step r g m c m"
      by (rule combine_step_cong)
    then show ?thesis using True
      by simp
  next
    case False
    then show ?thesis using Suc
      by (auto simp add: combine_step_other)
  qed
qed

lemma combine_channels_at:
  "combine_channels c r g n i = (if i < n then combine_step r g i c i else c i)"
  by (simp add: combine_channels_def combine_fold_upt)


lemma combine_inactive_keeps:
  "\<not> (sn_active (r i) \<and> sn_active (g i)) \<Longrightarrow> combine_channels c r g n i = c i"
  by (auto simp add: combine_channels_at combine_step_def)


text \<open>
  Claim C5 asks for an inactive, zeroed derived cell wherever one of the two inputs is
  inactive, as a function of the two inputs alone. \<open>combine_channels\<close> does not write
  such a slot: with an inactive red cell and a derived cell that held the value 7 with
  its flag set, the derived cell is still active with the value 7 afterwards, and the same
  two inputs over a cleared derived cell give another result.
\<close>

theorem combine_keeps_stale_cell:
  "sn_active (combine_channels (byte_array CYAN_CHANNEL 7 True) (byte_array RED_CHANNEL 1 False) (byte_array GREEN_CHANNEL 2 True) 1 0)
   \<and> sn_value (combine_channels (byte_array CYAN_CHANNEL 7 True) (byte_array RED_CHANNEL 1 False) (byte_array GREEN_CHANNEL 2 True) 1 0) = 7
   \<and> combine_channels (byte_array CYAN_CHANNEL 7 True) (byte_array RED_CHANNEL 1 False) (byte_array GREEN_CHANNEL 2 True) 1 0
       \<noteq> combine_channels zero_array_min (byte_array RED_CHANNEL 1 False) (byte_array GREEN_CHANNEL 2 True) 1 0"
  by (simp add: combine_channels_at combine_step_def byte_array_def zero_array_min_def zero_node_min_def)

section \<open>The protocol cycle\<close>



lemma linear_idx_in_bounds:
  assumes "row_fits p"
  shows "0 \<le> linear_idx p \<and> linear_idx p < int ACTIVE_SIZE_min"
proof -
  obtain i j k where p: "p = (i, j, k)" by (cases p) auto
  show ?thesis using assms unfolding p
    by (simp add: linear_idx_fits ACTIVE_SIZE_min_256)
qed


lemma encode_step_ok:
  assumes "row_fits p" and "length d + 2 \<le> PACKET_DATA_SIZE"
  shows "\<exists>d'. encode_step grid p (Inr d) = Inr d' \<and> length d' \<le> length d + 2"
  using linear_idx_in_bounds [OF assms(1)] assms(2)
  by (simp add: encode_step_def Let_def push_byte_def)

lemma encode_fold_ok:
  "list_all row_fits ps \<Longrightarrow> length d + 2 * length ps \<le> PACKET_DATA_SIZE \<Longrightarrow>
   \<exists>d'. fold (encode_step grid) ps (Inr d) = Inr d' \<and> length d' \<le> length d + 2 * length ps"
proof (induction ps arbitrary: d)
  case Nil
  then show ?case by simp
next
  case (Cons p ps)
  from Cons.prems have fit: "row_fits p" and rest: "list_all row_fits ps"
    and room: "length d + 2 \<le> PACKET_DATA_SIZE" by simp_all
  from encode_step_ok [OF fit room]
  obtain d1 where d1: "encode_step grid p (Inr d) = Inr d1" "length d1 \<le> length d + 2"
    by blast
  from Cons.prems d1 have "length d1 + 2 * length ps \<le> PACKET_DATA_SIZE" by simp
  from Cons.IH [OF rest this]
  obtain d' where "fold (encode_step grid) ps (Inr d1) = Inr d'" "length d' \<le> length d1 + 2 * length ps"
    by blast
  with d1 show ?case by simp
qed

subsection \<open>The two grids\<close>












subsection \<open>The aggregate and the verdict\<close>




text \<open>
  Claim C9 takes every index whose permutation entries are non-negative. An entry can be
  non-negative and still too large: with the row \<open>(21474837, 0, 0)\<close> the product
  \<open>i * 100\<close> is beyond \<open>INT_MAX\<close>, the linear index comes out as -204, and the
  access to the red array is outside it.
\<close>

theorem cycle_out_of_bounds:
  "perms_nonneg (init_tomographic_index blank_index 21474837 0 0)
   \<and> linear_idx (21474837, 0, 0) = - 204
   \<and> nsigii_protocol_cycle blank_grid_min (init_tomographic_index blank_index 21474837 0 0) = Inl OutOfBounds"
proof -
  have "perms_nonneg (init_tomographic_index blank_index 21474837 0 0)"
    by (simp add: perms_nonneg_def init_tomographic_index_def row_nonneg_def upt_conv_Cons)
  moreover have "encode_step blank_grid_min (21474837, 0, 0) (Inr []) = Inl OutOfBounds"
    by (simp add: encode_step_def linear_idx_overflow)
  then have "encode_state blank_grid_min (init_tomographic_index blank_index 21474837 0 0) = Inl OutOfBounds"
    by (simp add: encode_state_def init_tomographic_index_def upt_conv_Cons encode_step_def)
  then have "nsigii_protocol_cycle blank_grid_min (init_tomographic_index blank_index 21474837 0 0) = Inl OutOfBounds"
    by (simp add: nsigii_protocol_cycle_def)
  ultimately show ?thesis
    by (simp add: linear_idx_overflow)
qed

text \<open>
  Claim C9, amended. For every grid and every index of which each of the 6 permutation
  rows has non-negative entries and a sum \<open>i * 100 + j * 10 + k\<close> of at most
  \<open>INT_MAX\<close>, the protocol cycle completes without an access out of bounds, its packet
  has at most 12 bytes, and each of the 6 linear indices is in \<open>0 .. ACTIVE_SIZE - 1\<close>.
\<close>

theorem cycle_in_bounds:
  assumes "perms_fit idx"
  shows "\<exists>r. nsigii_protocol_cycle grid idx = Inr r \<and> length (pk_data (cr_packet r)) \<le> 12
      \<and> list_all (\<lambda>p. 0 \<le> linear_idx (permutations idx ! p)
                     \<and> linear_idx (permutations idx ! p) < int ACTIVE_SIZE_min) [0..<6]"
proof -
  let ?ps = "map (\<lambda>p. permutations idx ! p) [0..<6]"
  from assms have fits: "list_all row_fits ?ps" by (simp add: perms_fit_def)
  have "length ([] :: 8 word list) + 2 * length ?ps \<le> PACKET_DATA_SIZE"
    by (simp add: PACKET_DATA_SIZE_def)
  from encode_fold_ok [OF fits this, of grid]
  obtain d where d: "encode_state grid idx = Inr d" "length d \<le> 12"
    by (auto simp add: encode_state_def)
  have "list_all (\<lambda>p. 0 \<le> linear_idx (permutations idx ! p)
                     \<and> linear_idx (permutations idx ! p) < int ACTIVE_SIZE_min) [0..<6]"
    using fits by (simp add: list_all_iff linear_idx_in_bounds)
  with d show ?thesis
    by (simp add: nsigii_protocol_cycle_def)
qed

theorem cycle_in_bounds_witness:
  "perms_fit (init_tomographic_index blank_index 1 2 3)
   \<and> (\<exists>r. nsigii_protocol_cycle demo_grid_min (init_tomographic_index blank_index 1 2 3) = Inr r
        \<and> length (pk_data (cr_packet r)) \<le> 12
        \<and> list_all (\<lambda>p. 0 \<le> linear_idx (permutations (init_tomographic_index blank_index 1 2 3) ! p)
                     \<and> linear_idx (permutations (init_tomographic_index blank_index 1 2 3) ! p) < int ACTIVE_SIZE_min) [0..<6])"
proof -
  have h: "perms_fit (init_tomographic_index blank_index 1 2 3)"
    by (simp add: perms_fit_def init_tomographic_index_def upt_conv_Cons row_fits_def INT_MAX_def)
  from cycle_in_bounds [OF h, of demo_grid_min] h show ?thesis by simp
qed

section \<open>The grid of the double engine\<close>

lemma ACTIVE_SIZE_dim_250: "ACTIVE_SIZE_dim = 250"
  by (simp add: ACTIVE_SIZE_dim_def GRID_SIZE_def SPARSE_FACTOR_def)

subsection \<open>The verification cycle\<close>

lemma refresh_cell_frame:
  "(vc_grid (refresh_cell c i ch st) n ch')\<lparr>sd_value := a, sd_deriv := b, sd_entropy := e\<rparr>
     = (vc_grid st n ch')\<lparr>sd_value := a, sd_deriv := b, sd_entropy := e\<rparr>"
  by (simp add: refresh_cell_def Let_def split_def)

lemma refresh_cell_active:
  "sd_active (vc_grid (refresh_cell c i ch st) n ch') = sd_active (vc_grid st n ch')"
  by (simp add: refresh_cell_def Let_def split_def)


lemma refresh_cell_count:
  "vc_active_count (refresh_cell c i ch st) ch'
     = vc_active_count st ch' + (if ch' = ch \<and> sd_active (vc_grid st i ch) then 1 else 0)"
  by (simp add: refresh_cell_def Let_def split_def)

lemma refresh_slot_frame:
  "(vc_grid (fold (refresh_cell c i) chs st) n ch')\<lparr>sd_value := a, sd_deriv := b, sd_entropy := e\<rparr>
     = (vc_grid st n ch')\<lparr>sd_value := a, sd_deriv := b, sd_entropy := e\<rparr>"
  by (induction chs arbitrary: st) (simp_all add: refresh_cell_frame)

lemma refresh_slot_active:
  "sd_active (vc_grid (fold (refresh_cell c i) chs st) n ch') = sd_active (vc_grid st n ch')"
  by (induction chs arbitrary: st) (simp_all add: refresh_cell_active)


lemma refresh_slot_count:
  "vc_active_count (fold (refresh_cell c i) chs st) ch'
     = vc_active_count st ch'
       + (if sd_active (vc_grid st i ch') then length (filter (\<lambda>x. x = ch') chs) else 0)"
proof (induction chs arbitrary: st)
  case Nil
  then show ?case by simp
next
  case (Cons ch chs)
  show ?case
    by (simp add: Cons.IH refresh_cell_count refresh_cell_active)
qed

lemma refresh_all_frame:
  "(vc_grid (fold (\<lambda>i. fold (refresh_cell c i) chs) is st) n ch')\<lparr>sd_value := a, sd_deriv := b, sd_entropy := e\<rparr>
     = (vc_grid st n ch')\<lparr>sd_value := a, sd_deriv := b, sd_entropy := e\<rparr>"
  by (induction "is" arbitrary: st) (simp_all add: refresh_slot_frame)

lemma refresh_all_active:
  "sd_active (vc_grid (fold (\<lambda>i. fold (refresh_cell c i) chs) is st) n ch') = sd_active (vc_grid st n ch')"
  by (induction "is" arbitrary: st) (simp_all add: refresh_slot_active)


lemma refresh_all_count:
  "vc_active_count (fold (\<lambda>i. fold (refresh_cell c i) chs) is st) ch'
     = vc_active_count st ch'
       + length (filter (\<lambda>i. sd_active (vc_grid st i ch')) is) * length (filter (\<lambda>x. x = ch') chs)"
proof (induction "is" arbitrary: st)
  case Nil
  then show ?case by simp
next
  case (Cons i "is")
  show ?case
    by (simp add: Cons.IH refresh_slot_count refresh_slot_active)
qed

lemma cycle_frame:
  "(vc_grid (nsigii_verification_cycle g s c) n ch)\<lparr>sd_value := a, sd_deriv := b, sd_entropy := e\<rparr>
     = (g n ch)\<lparr>sd_value := a, sd_deriv := b, sd_entropy := e\<rparr>"
  unfolding nsigii_verification_cycle_def refresh_all_frame by simp

lemma cycle_active:
  "sd_active (vc_grid (nsigii_verification_cycle g s c) n ch) = sd_active (g n ch)"
  unfolding nsigii_verification_cycle_def refresh_all_active by simp


lemma cycle_count:
  "vc_active_count (nsigii_verification_cycle g s c) ch = count_active g ch"
  unfolding nsigii_verification_cycle_def refresh_all_count count_active_def by (cases ch) simp_all

lemma count_active_cycle:
  "count_active (vc_grid (nsigii_verification_cycle g s c)) ch = count_active g ch"
  by (simp add: count_active_def cycle_active)


subsection \<open>Initialisation\<close>

lemma fold_project:
  assumes "\<And>x s. h (f x s) = g x (h s)"
  shows "h (fold f xs s) = fold g xs (h s)"
  by (induction xs arbitrary: s) (simp_all add: assms)

lemma init_cell_linear: "is_linear (init_cell i j k st) = count_step i j k (is_linear st)"
  by (simp add: init_cell_def count_step_def Let_def split_def)

lemma init_loops_linear:
  "is_linear (init_loops st)
     = fold (\<lambda>i. fold (\<lambda>j. fold (\<lambda>k. count_step i j k) [0..<GRID_SIZE]) [0..<GRID_SIZE])
         [0..<GRID_SIZE] (is_linear st)"
  unfolding init_loops_def
  by (intro fold_project init_cell_linear)

lemma count_loops: 
  "fold (\<lambda>i. fold (\<lambda>j. fold (\<lambda>k. count_step i j k) [0..<GRID_SIZE]) [0..<GRID_SIZE])
         [0..<GRID_SIZE] 0 = 249"
  unfolding count_step_def SPARSE_FACTOR_def ACTIVE_SIZE_dim_250 GRID_SIZE_def
  by code_simp

lemma init_cell_skip:
  "\<not> ((i + j + k) mod SPARSE_FACTOR = 0 \<and> is_linear st < ACTIVE_SIZE_dim) \<Longrightarrow> init_cell i j k st = st"
  unfolding init_cell_def by (rule if_not_P)

lemma init_cell_grid_other: "n \<noteq> is_linear st \<Longrightarrow> is_grid (init_cell i j k st) n = is_grid st n"
  by (simp add: init_cell_def Let_def split_def)

lemma init_cell_grid_at:
  "(i + j + k) mod SPARSE_FACTOR = 0 \<Longrightarrow> is_linear st < ACTIVE_SIZE_dim \<Longrightarrow>
   consensus_at (is_grid (init_cell i j k st)) (is_linear st)"
  by (simp add: init_cell_def Let_def split_def consensus_at_def)

lemma init_cell_inv:
  assumes "init_inv g0 st"
  shows "init_inv g0 (init_cell i j k st)"
proof (cases "(i + j + k) mod SPARSE_FACTOR = 0 \<and> is_linear st < ACTIVE_SIZE_dim")
  case False
  then show ?thesis using assms by (simp add: init_cell_skip)
next
  case True
  then have lin: "is_linear (init_cell i j k st) = is_linear st + 1"
    by (simp add: init_cell_linear count_step_def)
  have "consensus_at (is_grid (init_cell i j k st)) n" if "n < is_linear st + 1" for n
  proof (cases "n = is_linear st")
    case True
    with \<open>(i + j + k) mod SPARSE_FACTOR = 0 \<and> is_linear st < ACTIVE_SIZE_dim\<close>
    show ?thesis by (simp add: init_cell_grid_at)
  next
    case False
    with that have "n < is_linear st" by simp
    with assms have "consensus_at (is_grid st) n" by (simp add: init_inv_def)
    moreover have "is_grid (init_cell i j k st) n = is_grid st n"
      using False by (rule init_cell_grid_other)
    ultimately show ?thesis by (simp add: consensus_at_def)
  qed
  moreover have "is_grid (init_cell i j k st) n = g0 n" if "is_linear st + 1 \<le> n" for n
  proof -
    from that have "n \<noteq> is_linear st" "is_linear st \<le> n" by simp_all
    with assms show ?thesis by (simp add: init_cell_grid_other init_inv_def)
  qed
  ultimately show ?thesis
    by (simp add: init_inv_def lin)
qed

lemma init_loops_inv:
  assumes "init_inv g0 st"
  shows "init_inv g0 (init_loops st)"
proof -
  have inner: "init_inv g0 (fold (\<lambda>k. init_cell i j k) ks s)" if "init_inv g0 s" for i j ks s
    using that by (induction ks arbitrary: s) (simp_all add: init_cell_inv)
  have middle: "init_inv g0 (fold (\<lambda>j. fold (\<lambda>k. init_cell i j k) ks) js s)"
    if "init_inv g0 s" for i js ks s
    using that by (induction js arbitrary: s) (simp_all add: inner)
  have outer: "init_inv g0 (fold (\<lambda>i. fold (\<lambda>j. fold (\<lambda>k. init_cell i j k) ks) js) is s)"
    if "init_inv g0 s" for "is" js ks s
    using that by (induction "is" arbitrary: s) (simp_all add: middle)
  show ?thesis
    unfolding init_loops_def using assms by (rule outer)
qed

lemma init_result:
  "init_inv g0 (init_loops \<lparr>is_grid = g0, is_linear = 0, is_rand = s\<rparr>)
   \<and> is_linear (init_loops \<lparr>is_grid = g0, is_linear = 0, is_rand = s\<rparr>) = 249"
proof -
  have "init_inv g0 \<lparr>is_grid = g0, is_linear = 0, is_rand = s\<rparr>"
    by (simp add: init_inv_def)
  then show ?thesis
    by (simp add: init_loops_inv init_loops_linear count_loops)
qed

lemma init_consensus: "n < 249 \<Longrightarrow> consensus_at (fst (init_sparse_grid_dim g0 s)) n"
  using init_result [of g0 s] by (simp add: init_sparse_grid_dim_def Let_def init_inv_def)

lemma init_untouched: "249 \<le> n \<Longrightarrow> fst (init_sparse_grid_dim g0 s) n = g0 n"
  using init_result [of g0 s] by (simp add: init_sparse_grid_dim_def Let_def init_inv_def)

lemma count_active_init:
  assumes "ch = RED \<or> ch = GREEN"
  shows "count_active (fst (init_sparse_grid_dim g0 s)) ch = 249 + (if sd_active (g0 249 ch) then 1 else 0)"
proof -
  let ?g = "fst (init_sparse_grid_dim g0 s)"
  have "\<forall>n\<in>set [0..<249]. sd_active (?g n ch)"
    using assms init_consensus [of _ g0 s] by (auto simp add: consensus_at_def)
  then have "filter (\<lambda>i. sd_active (?g i ch)) [0..<249] = [0..<249]"
    by (simp only: filter_True)
  moreover have "[0..<250] = [0..<249] @ [249]"
    by (simp add: upt_rec [of 249 250] flip: upt_add_eq_append [of 0 249 1, simplified])
  moreover have "?g 249 = g0 249" by (rule init_untouched) simp
  ultimately show ?thesis
    by (simp add: count_active_def ACTIVE_SIZE_dim_250)
qed

subsection \<open>Cycles after initialisation\<close>


lemma run_cycles_active:
  "sd_active (fst (run_cycles cs gs) n ch) = sd_active (fst gs n ch)"
  by (induction cs arbitrary: gs) (simp_all add: Let_def cycle_active)


lemma count_active_run: "count_active (fst (run_cycles cs gs)) ch = count_active (fst gs) ch"
  by (simp add: count_active_def run_cycles_active)

subsection \<open>The claims about the grid\<close>

text \<open>
  Claim C6. A verification cycle leaves the activity flag and the channel tag of every
  cell of every channel as they were; of a cell it changes the value, the derivative
  trace and the entropy at most, so two cells before and after agree once these three
  fields are set alike.
\<close>

theorem refresh_keeps_flags:
  "sd_active (vc_grid (nsigii_verification_cycle g s c) n ch) = sd_active (g n ch)
   \<and> sd_channel (vc_grid (nsigii_verification_cycle g s c) n ch) = sd_channel (g n ch)
   \<and> (vc_grid (nsigii_verification_cycle g s c) n ch)\<lparr>sd_value := v, sd_deriv := d, sd_entropy := e\<rparr>
       = (g n ch)\<lparr>sd_value := v, sd_deriv := d, sd_entropy := e\<rparr>"
proof -
  have fr: "(vc_grid (nsigii_verification_cycle g s c) n ch)\<lparr>sd_value := v, sd_deriv := d, sd_entropy := e\<rparr>
       = (g n ch)\<lparr>sd_value := v, sd_deriv := d, sd_entropy := e\<rparr>"
    by (rule cycle_frame)
  from arg_cong [OF fr, of sd_channel]
  have "sd_channel (vc_grid (nsigii_verification_cycle g s c) n ch) = sd_channel (g n ch)"
    by simp
  with fr show ?thesis
    by (simp add: cycle_active)
qed

text \<open>
  Claim C3 gives 250 active Primary and 250 active Verification cells. Over cleared
  memory the initialisation leaves 249 of each: the claim is false as it stands.
\<close>

theorem active_count_counterexample:
  "count_active (fst (init_sparse_grid_dim blank_grid_dim zero_rand)) RED = 249
   \<and> count_active (fst (init_sparse_grid_dim blank_grid_dim zero_rand)) GREEN = 249
   \<and> \<not> (count_active (fst (init_sparse_grid_dim blank_grid_dim zero_rand)) RED = 250
        \<and> count_active (fst (init_sparse_grid_dim blank_grid_dim zero_rand)) GREEN = 250)"
  by (simp add: count_active_init blank_grid_dim_def blank_node_dim_def)

text \<open>
  Claim C3, amended. \<open>init_sparse_grid\<close> writes the slots 0 to 248, one for each of
  the 249 triples with \<open>(i + j + k) mod 4 = 0\<close>, and never the slot 249. Where the
  Primary and Verification flags of that slot are clear in the memory it is given, the
  number of active Primary cells and the number of active Verification cells are 249
  each after the initialisation and after every verification cycle that follows (the
  list \<open>cs\<close> of cycle numbers run so far is empty, \<open>[0]\<close>, \<open>[0, 1]\<close> or
  \<open>[0, 1, 2]\<close> in \<open>main\<close>), and 249 is also the count each further cycle reports.
\<close>

theorem active_counts_after_refresh:
  assumes "\<not> sd_active (mem 249 RED)" and "\<not> sd_active (mem 249 GREEN)"
  shows "count_active (fst (run_cycles cs (init_sparse_grid_dim mem s))) RED = 249
     \<and> count_active (fst (run_cycles cs (init_sparse_grid_dim mem s))) GREEN = 249
     \<and> vc_active_count (nsigii_verification_cycle (fst (run_cycles cs (init_sparse_grid_dim mem s)))
           (snd (run_cycles cs (init_sparse_grid_dim mem s))) c) RED = 249
     \<and> vc_active_count (nsigii_verification_cycle (fst (run_cycles cs (init_sparse_grid_dim mem s)))
           (snd (run_cycles cs (init_sparse_grid_dim mem s))) c) GREEN = 249"
  using assms by (simp add: cycle_count count_active_run count_active_init)

theorem active_counts_after_refresh_witness:
  "\<not> sd_active (blank_grid_dim 249 RED) \<and> \<not> sd_active (blank_grid_dim 249 GREEN)
   \<and> count_active (fst (run_cycles [0, 1, 2] (init_sparse_grid_dim blank_grid_dim zero_rand))) RED = 249
   \<and> count_active (fst (run_cycles [0, 1, 2] (init_sparse_grid_dim blank_grid_dim zero_rand))) GREEN = 249
   \<and> vc_active_count (nsigii_verification_cycle
         (fst (run_cycles [0, 1] (init_sparse_grid_dim blank_grid_dim zero_rand)))
         (snd (run_cycles [0, 1] (init_sparse_grid_dim blank_grid_dim zero_rand))) 2) RED = 249"
proof -
  have h: "\<not> sd_active (blank_grid_dim 249 RED)" "\<not> sd_active (blank_grid_dim 249 GREEN)"
    by (simp_all add: blank_grid_dim_def blank_node_dim_def)
  note a = active_counts_after_refresh [where mem = blank_grid_dim and cs = "[0, 1, 2]"
      and s = zero_rand and c = 2, OF h]
  note b = active_counts_after_refresh [where mem = blank_grid_dim and cs = "[0, 1]"
      and s = zero_rand and c = 2, OF h]
  from a b h show ?thesis
    by (simp del: run_cycles.simps)
qed






end
